theory Spec2Isabelle
  imports Complex_Main
begin

section \<open>Neutron scenario helpers (rally_openstack/task/scenarios/neutron/utils.py)\<close>

text \<open>
  The module is a facade over an injected networking client: every method shapes its
  arguments, forwards them and reshapes the answer. The embedding keeps exactly that:
  \<^item> Python values are a small datatype; a dict is a map from string keys;
  \<^item> a raised exception is the \<open>Inl\<close> branch of a sum;
  \<^item> the injected services (\<open>self.neutron\<close>, \<open>self.clients("neutron")\<close>, ...) answer
    through one function of the environment, and every call made is appended to the list
    of calls kept in the state, so that what a method forwards can be observed;
  \<^item> \<open>generate_random_name\<close> reads the next name of a sequence given by the
    environment and advances a counter in the state;
  \<^item> a method that mutates a dict owned by its caller returns the dict as the caller
    sees it afterwards; a \<open>**kwargs\<close> dict is the method's own copy and is not returned.

  The \<open>atomic.action_timer\<close> decorators and the log messages only record what
  happened; they change neither arguments nor results and are left out.

  Python names starting with an underscore are written with the class name in front:
  \<open>NeutronScenario._create_network\<close> is \<open>NeutronScenario_create_network\<close>.
\<close>

subsection \<open>Values, exceptions, calls\<close>

datatype pyval =
    PNone
  | PBool bool
  | PInt int
  | PStr string
  | PList "pyval list"
  | PDict "string \<Rightarrow> pyval option"

type_synonym dict = "string \<Rightarrow> pyval option"

text \<open>
  The exceptions that occur. \<open>ServiceError\<close> stands for any other exception of the
  wrapped API; it carries the \<open>status_code\<close> attribute when the exception has one.
  Only instances of \<open>Exception\<close> are modelled.
\<close>

datatype exn =
    KeyError string
  | TypeError
  | ZeroDivisionError
  | NotFoundException string
  | GetResourceFailure pyval exn
  | GetResourceNotFound pyval
  | TimeoutException
  | ServiceError "int option" string

text \<open>
  \<open>except exceptions.GetResourceFailure\<close> matches by \<open>isinstance\<close>. In
  \<open>rally.exceptions\<close> (imported, not part of this module) \<open>GetResourceNotFound\<close> is
  declared as a subclass of \<open>GetResourceFailure\<close>.
\<close>

fun isinstance_GetResourceFailure :: "exn \<Rightarrow> bool" where
  "isinstance_GetResourceFailure (GetResourceFailure r e) = True"
| "isinstance_GetResourceFailure (GetResourceNotFound r) = True"
| "isinstance_GetResourceFailure e = False"

text \<open>\<open>getattr(e, "status_code", default)\<close>\<close>

fun getattr_status_code :: "exn \<Rightarrow> int \<Rightarrow> int" where
  "getattr_status_code (ServiceError (Some c) m) d = c"
| "getattr_status_code e d = d"

text \<open>\<open>v[k]\<close> for a string key: a dict is looked up, anything else is not subscriptable by a string.\<close>

fun py_getitem :: "pyval \<Rightarrow> string \<Rightarrow> exn + pyval" where
  "py_getitem (PDict d) k = (case d k of None \<Rightarrow> Inl (KeyError k) | Some v \<Rightarrow> Inr v)"
| "py_getitem v k = Inl TypeError"

text \<open>\<open>v[a][b]\<close>\<close>

definition py_getitem2 :: "pyval \<Rightarrow> string \<Rightarrow> string \<Rightarrow> exn + pyval" where
  "py_getitem2 v a b = (case py_getitem v a of Inl e \<Rightarrow> Inl e | Inr w \<Rightarrow> py_getitem w b)"

datatype receiver = neutron | admin_neutron | clients_neutron | admin_clients_neutron

record call =
  receiver :: receiver
  method_name :: string
  args :: "pyval list"
  kwargs :: dict

record state =
  calls :: "call list"
  names_used :: nat

text \<open>
  The scenario context: \<open>self.context["tenant"]\<close> with its optional \<open>"networks"\<close>
  entry (a list of network dicts when the network context provides it) and
  \<open>self.context["iteration"]\<close>.
\<close>

record tenant_context =
  networks :: "pyval list option"

record scenario_context =
  tenant :: tenant_context
  iteration :: int


text \<open>
  The environment of a scenario: what the injected services answer (given the calls made
  so far and the call), the sequence of generated names, the context, and the two options
  of \<open>CONF.openstack\<close> that are read.
\<close>

record env =
  respond :: "call list \<Rightarrow> call \<Rightarrow> exn + pyval"
  name_gen :: "nat \<Rightarrow> string"
  self_context :: scenario_context
  neutron_create_loadbalancer_timeout :: real
  neutron_create_loadbalancer_poll_interval :: real

definition service_call ::
  "env \<Rightarrow> receiver \<Rightarrow> string \<Rightarrow> pyval list \<Rightarrow> dict \<Rightarrow> state \<Rightarrow> (exn + pyval) \<times> state" where
  "service_call env r m as kw s =
     (let c = \<lparr>receiver = r, method_name = m, args = as, kwargs = kw\<rparr>
      in (respond env (calls s) c, s\<lparr>calls := calls s @ [c]\<rparr>))"

definition generate_random_name :: "env \<Rightarrow> state \<Rightarrow> string \<times> state" where
  "generate_random_name env s =
     (name_gen env (names_used s), s\<lparr>names_used := Suc (names_used s)\<rparr>)"

text \<open>
  Binding \<open>**kwargs\<close>: a keyword that names one of the method's own parameters is
  refused by Python (\<open>TypeError: got multiple values for argument\<close>).
\<close>

definition bind_clash :: "string list \<Rightarrow> dict \<Rightarrow> bool" where
  "bind_clash params kw = list_ex (\<lambda>p. kw p \<noteq> None) params"

subsection \<open>The platform's wait for a status\<close>



subsection \<open>NeutronScenario._get_network_id\<close>

definition NeutronScenario_get_network_id ::
  "env \<Rightarrow> string \<Rightarrow> dict \<Rightarrow> state \<Rightarrow> (exn + pyval) \<times> state" where
  "NeutronScenario_get_network_id env network kw s =
     (if bind_clash [''self'', ''network''] kw then (Inl TypeError, s)
      else case service_call env neutron ''find_network'' [PStr network] Map.empty s of
        (Inr net, s') \<Rightarrow> (py_getitem net ''id'', s')
      | (Inl e, s') \<Rightarrow>
          if isinstance_GetResourceFailure e
          then (Inl (NotFoundException (''Network '' @ network @ '' not found.'')), s')
          else (Inl e, s'))"

subsection \<open>NeutronBaseScenario._get_or_create_network\<close>

definition NeutronBaseScenario_get_or_create_network ::
  "env \<Rightarrow> dict \<Rightarrow> state \<Rightarrow> (exn + pyval) \<times> state" where
  "NeutronBaseScenario_get_or_create_network env network_create_args s =
     (if bind_clash [''self''] network_create_args then (Inl TypeError, s)
      else case networks (tenant (self_context env)) of
        Some nets \<Rightarrow>
          (if length nets = 0 then (Inl ZeroDivisionError, s)
           else let net_idx = iteration (self_context env) mod int (length nets)
                in (Inr (nets ! nat net_idx), s))
      | None \<Rightarrow> service_call env neutron ''create_network'' [] network_create_args s)"

subsection \<open>Networks\<close>

text \<open>
  The methods below that take a dict from their caller and change it return a triple:
  the result, the caller's dict after the call, and the state.
\<close>

definition NeutronScenario_create_network ::
  "env \<Rightarrow> dict \<Rightarrow> state \<Rightarrow> (exn + pyval) \<times> dict \<times> state" where
  "NeutronScenario_create_network env network_create_args s =
     (let args1 = network_create_args(''name'' := None)
      in case service_call env neutron ''create_network'' [] args1 s of
           (Inl e, s') \<Rightarrow> (Inl e, args1, s')
         | (Inr r, s') \<Rightarrow> (Inr (PDict (Map.empty(''network'' \<mapsto> r))), args1, s'))"

definition NeutronScenario_update_network ::
  "env \<Rightarrow> pyval \<Rightarrow> dict \<Rightarrow> state \<Rightarrow> (exn + pyval) \<times> dict \<times> state" where
  "NeutronScenario_update_network env network network_update_args s =
     (let (name, s1) = generate_random_name env s;
          args1 = network_update_args(''name'' \<mapsto> PStr name)
      in (case py_getitem2 network ''network'' ''id'' of
             Inl e \<Rightarrow> (Inl e, args1, s1)
           | Inr network_id \<Rightarrow>
               (case service_call env neutron ''update_network'' [network_id] args1 s1 of
                  (Inl e, s') \<Rightarrow> (Inl e, args1, s')
                | (Inr r, s') \<Rightarrow> (Inr (PDict (Map.empty(''network'' \<mapsto> r))), args1, s'))))"

definition NeutronScenario_show_network ::
  "env \<Rightarrow> pyval \<Rightarrow> dict \<Rightarrow> state \<Rightarrow> (exn + pyval) \<times> state" where
  "NeutronScenario_show_network env network kw s =
     (if bind_clash [''self'', ''network''] kw then (Inl TypeError, s)
      else case py_getitem2 network ''network'' ''id'' of
        Inl e \<Rightarrow> (Inl e, s)
      | Inr network_id \<Rightarrow>
          (case service_call env neutron ''get_network'' [network_id] kw s of
             (Inl e, s') \<Rightarrow> (Inl e, s')
           | (Inr r, s') \<Rightarrow> (Inr (PDict (Map.empty(''network'' \<mapsto> r))), s')))"

subsection \<open>Subnets, routers, ports, security groups\<close>

definition NeutronScenario_create_subnet ::
  "env \<Rightarrow> pyval \<Rightarrow> dict \<Rightarrow> pyval \<Rightarrow> state \<Rightarrow> (exn + pyval) \<times> dict \<times> state" where
  "NeutronScenario_create_subnet env network subnet_create_args start_cidr s =
     (let args1 = subnet_create_args(''name'' := None)
      in case py_getitem2 network ''network'' ''id'' of
           Inl e \<Rightarrow> (Inl e, args1, s)
         | Inr network_id \<Rightarrow>
             let args2 = args1(''network_id'' \<mapsto> network_id);
                 args3 = args2(''start_cidr'' \<mapsto> start_cidr)
             in (case service_call env neutron ''create_subnet'' [] args3 s of
                   (Inl e, s') \<Rightarrow> (Inl e, args3, s')
                 | (Inr r, s') \<Rightarrow> (Inr (PDict (Map.empty(''subnet'' \<mapsto> r))), args3, s')))"

definition NeutronScenario_update_subnet ::
  "env \<Rightarrow> pyval \<Rightarrow> dict \<Rightarrow> state \<Rightarrow> (exn + pyval) \<times> dict \<times> state" where
  "NeutronScenario_update_subnet env subnet subnet_update_args s =
     (let (name, s1) = generate_random_name env s;
          args1 = subnet_update_args(''name'' \<mapsto> PStr name)
      in (case py_getitem2 subnet ''subnet'' ''id'' of
             Inl e \<Rightarrow> (Inl e, args1, s1)
           | Inr subnet_id \<Rightarrow>
               (case service_call env neutron ''update_subnet'' [subnet_id] args1 s1 of
                  (Inl e, s') \<Rightarrow> (Inl e, args1, s')
                | (Inr r, s') \<Rightarrow> (Inr (PDict (Map.empty(''subnet'' \<mapsto> r))), args1, s'))))"

text \<open>
  \<open>create_router(discover_external_gw=external_gw, **router_create_args)\<close>: a dict that
  itself holds \<open>discover_external_gw\<close> makes the call expression fail
  (\<open>TypeError: got multiple values for keyword argument\<close>) before the service is reached.
\<close>

definition NeutronScenario_create_router ::
  "env \<Rightarrow> dict \<Rightarrow> bool \<Rightarrow> state \<Rightarrow> (exn + pyval) \<times> dict \<times> state" where
  "NeutronScenario_create_router env router_create_args external_gw s =
     (let args1 = router_create_args(''name'' := None);
          args2 = (if args1 ''tenant_id'' \<noteq> None \<and> args1 ''project_id'' = None
                   then (args1(''tenant_id'' := None))(''project_id'' := args1 ''tenant_id'')
                   else args1)
      in if args2 ''discover_external_gw'' \<noteq> None then (Inl TypeError, args2, s)
         else case service_call env neutron ''create_router'' []
                     (args2(''discover_external_gw'' \<mapsto> PBool external_gw)) s of
                (Inl e, s') \<Rightarrow> (Inl e, args2, s')
              | (Inr r, s') \<Rightarrow> (Inr (PDict (Map.empty(''router'' \<mapsto> r))), args2, s'))"

definition NeutronScenario_update_router ::
  "env \<Rightarrow> pyval \<Rightarrow> dict \<Rightarrow> state \<Rightarrow> (exn + pyval) \<times> dict \<times> state" where
  "NeutronScenario_update_router env router router_update_args s =
     (let (name, s1) = generate_random_name env s;
          args1 = router_update_args(''name'' \<mapsto> PStr name)
      in (case py_getitem2 router ''router'' ''id'' of
             Inl e \<Rightarrow> (Inl e, args1, s1)
           | Inr router_id \<Rightarrow>
               (case service_call env neutron ''update_router'' [router_id] args1 s1 of
                  (Inl e, s') \<Rightarrow> (Inl e, args1, s')
                | (Inr r, s') \<Rightarrow> (Inr (PDict (Map.empty(''router'' \<mapsto> r))), args1, s'))))"

definition NeutronScenario_update_port ::
  "env \<Rightarrow> pyval \<Rightarrow> dict \<Rightarrow> state \<Rightarrow> (exn + pyval) \<times> dict \<times> state" where
  "NeutronScenario_update_port env port port_update_args s =
     (let (name, s1) = generate_random_name env s;
          args1 = port_update_args(''name'' \<mapsto> PStr name)
      in (case py_getitem2 port ''port'' ''id'' of
             Inl e \<Rightarrow> (Inl e, args1, s1)
           | Inr port_id \<Rightarrow>
               (case service_call env neutron ''update_port'' [port_id] args1 s1 of
                  (Inl e, s') \<Rightarrow> (Inl e, args1, s')
                | (Inr r, s') \<Rightarrow> (Inr (PDict (Map.empty(''port'' \<mapsto> r))), args1, s'))))"

definition NeutronScenario_update_security_group ::
  "env \<Rightarrow> pyval \<Rightarrow> dict \<Rightarrow> state \<Rightarrow> (exn + pyval) \<times> state" where
  "NeutronScenario_update_security_group env security_group security_group_update_args s =
     (if bind_clash [''self'', ''security_group''] security_group_update_args
      then (Inl TypeError, s)
      else
        let (name, s1) = generate_random_name env s;
            args1 = security_group_update_args(''name'' \<mapsto> PStr name)
        in (case py_getitem2 security_group ''security_group'' ''id'' of
             Inl e \<Rightarrow> (Inl e, s1)
           | Inr sg_id \<Rightarrow>
               (case service_call env neutron ''update_security_group'' [sg_id] args1 s1 of
                  (Inl e, s') \<Rightarrow> (Inl e, s')
                | (Inr r, s') \<Rightarrow> (Inr (PDict (Map.empty(''security_group'' \<mapsto> r))), s'))))"

subsection \<open>Load balancers (v1 pools and health monitors, v2 load balancers)\<close>

definition LB_METHOD :: string where "LB_METHOD = ''ROUND_ROBIN''"
definition LB_PROTOCOL :: string where "LB_PROTOCOL = ''HTTP''"
definition HM_TYPE :: string where "HM_TYPE = ''PING''"
definition HM_MAX_RETRIES :: int where "HM_MAX_RETRIES = 3"
definition HM_DELAY :: int where "HM_DELAY = 20"
definition HM_TIMEOUT :: int where "HM_TIMEOUT = 10"

definition NeutronScenario_create_lb_pool ::
  "env \<Rightarrow> pyval \<Rightarrow> dict \<Rightarrow> state \<Rightarrow> (exn + pyval) \<times> state" where
  "NeutronScenario_create_lb_pool env subnet_id pool_create_args s =
     (if bind_clash [''self'', ''subnet_id''] pool_create_args then (Inl TypeError, s)
      else
        let (name, s1) = generate_random_name env s;
            args0 = Map.empty(''lb_method'' \<mapsto> PStr LB_METHOD,
                              ''protocol'' \<mapsto> PStr LB_PROTOCOL,
                              ''name'' \<mapsto> PStr name,
                              ''subnet_id'' \<mapsto> subnet_id);
            args1 = args0 ++ pool_create_args
        in service_call env clients_neutron ''create_pool''
             [PDict (Map.empty(''pool'' \<mapsto> PDict args1))] Map.empty s1)"

definition NeutronScenario_create_v1_healthmonitor ::
  "env \<Rightarrow> dict \<Rightarrow> state \<Rightarrow> (exn + pyval) \<times> state" where
  "NeutronScenario_create_v1_healthmonitor env healthmonitor_create_args s =
     (if bind_clash [''self''] healthmonitor_create_args then (Inl TypeError, s)
      else
        let args0 = Map.empty(''type'' \<mapsto> PStr HM_TYPE,
                              ''delay'' \<mapsto> PInt HM_DELAY,
                              ''max_retries'' \<mapsto> PInt HM_MAX_RETRIES,
                              ''timeout'' \<mapsto> PInt HM_TIMEOUT);
            args1 = args0 ++ healthmonitor_create_args
        in service_call env clients_neutron ''create_health_monitor''
             [PDict (Map.empty(''health_monitor'' \<mapsto> PDict args1))] Map.empty s)"

text \<open>
  \<open>update_loadbalancer_resource\<close>: both \<open>lb["id"]\<close> and the call are inside the
  \<open>try\<close>; the final \<open>new_lb["loadbalancer"]\<close> is outside it.
\<close>

definition NeutronScenario_update_loadbalancer_resource ::
  "env \<Rightarrow> pyval \<Rightarrow> state \<Rightarrow> (exn + pyval) \<times> state" where
  "NeutronScenario_update_loadbalancer_resource env lb s =
     (case (case py_getitem lb ''id'' of
              Inl e \<Rightarrow> (Inl e, s)
            | Inr lb_id \<Rightarrow> service_call env clients_neutron ''show_loadbalancer'' [lb_id] Map.empty s) of
        (Inl e, s') \<Rightarrow>
          if getattr_status_code e 400 = 404 then (Inl (GetResourceNotFound lb), s')
          else (Inl (GetResourceFailure lb e), s')
      | (Inr new_lb, s') \<Rightarrow> (py_getitem new_lb ''loadbalancer'', s'))"


subsection \<open>BGP VPN\<close>

definition NeutronScenario_update_bgpvpn ::
  "env \<Rightarrow> pyval \<Rightarrow> bool \<Rightarrow> dict \<Rightarrow> state \<Rightarrow> (exn + pyval) \<times> state" where
  "NeutronScenario_update_bgpvpn env bgpvpn update_name kw s =
     (if bind_clash [''self'', ''bgpvpn'', ''update_name''] kw then (Inl TypeError, s)
      else case (if update_name \<or> kw ''name'' \<noteq> None
                 then (case generate_random_name env s of (name, s1) \<Rightarrow>
                         (kw(''name'' \<mapsto> PStr name), s1))
                 else (kw, s)) of
        (kw1, s1) \<Rightarrow>
          (case py_getitem2 bgpvpn ''bgpvpn'' ''id'' of
             Inl e \<Rightarrow> (Inl e, s1)
           | Inr bgpvpn_id \<Rightarrow>
               service_call env admin_clients_neutron ''update_bgpvpn''
                 [bgpvpn_id, PDict (Map.empty(''bgpvpn'' \<mapsto> PDict kw1))] Map.empty s1))"

subsection \<open>A concrete environment\<close>

text \<open>
  A small service used to run the methods on concrete inputs: \<open>find_network\<close> knows
  one network, \<open>show_loadbalancer\<close> knows one load balancer, answers 404 for a deleted
  one and 500 otherwise; \<open>create_loadbalancer\<close> answers with a new load balancer that is
  still being created and is seen \<open>ACTIVE\<close> from the third \<open>show_loadbalancer\<close> on;
  every other call answers with the same plain value.
\<close>

definition example_respond :: "call list \<Rightarrow> call \<Rightarrow> exn + pyval" where
  "example_respond h c =
     (if method_name c = ''find_network'' then
        (if args c = [PStr ''private'']
         then Inr (PDict (Map.empty(''id'' \<mapsto> PStr ''net-1'')))
         else Inl (GetResourceFailure (PStr ''network'')
                     (ServiceError None ''no name or id matches'')))
      else if method_name c = ''show_loadbalancer'' then
        (if args c = [PStr ''lb-1'']
         then Inr (PDict (Map.empty(''loadbalancer'' \<mapsto>
                PDict (Map.empty(''id'' \<mapsto> PStr ''lb-1'',
                                 ''provisioning_status'' \<mapsto> PStr ''ACTIVE'')))))
         else if args c = [PStr ''lb-gone'']
         then Inl (ServiceError (Some 404) ''Not Found'')
         else if args c = [PStr ''lb-new'']
         then Inr (PDict (Map.empty(''loadbalancer'' \<mapsto>
                PDict (Map.empty(''id'' \<mapsto> PStr ''lb-new'',
                                 ''provisioning_status'' \<mapsto>
                                   PStr (if length (filter (\<lambda>p. method_name p = ''show_loadbalancer'') h) < 2
                                         then ''PENDING_CREATE'' else ''ACTIVE''))))))
         else Inl (ServiceError (Some 500) ''Internal Server Error''))
      else if method_name c = ''create_loadbalancer'' then
        Inr (PDict (Map.empty(''loadbalancer'' \<mapsto>
               PDict (Map.empty(''id'' \<mapsto> PStr ''lb-new'',
                                ''provisioning_status'' \<mapsto> PStr ''PENDING_CREATE'')))))
      else Inr (PStr ''res-1''))"

definition example_env :: env where
  "example_env =
     \<lparr>respond = example_respond,
      name_gen = (\<lambda>n. ''s_rally_'' @ replicate n (CHR ''x'')),
      self_context =
        \<lparr>tenant = \<lparr>networks = Some [PStr ''net-a'', PStr ''net-b'', PStr ''net-c'']\<rparr>,
         iteration = 7\<rparr>,
      neutron_create_loadbalancer_timeout = 500,
      neutron_create_loadbalancer_poll_interval = 2\<rparr>"

definition s0 :: state where
  "s0 = \<lparr>calls = [], names_used = 0\<rparr>"

section \<open>Properties\<close>

subsection \<open>Auxiliary facts\<close>

lemma py_getitem_Inl: "py_getitem v k = Inl e \<Longrightarrow> e = KeyError k \<or> e = TypeError"
  by (cases v) (auto split: option.splits)

lemma py_getitem_not_GetResourceNotFound: "py_getitem v k \<noteq> Inl (GetResourceNotFound r)"
  using py_getitem_Inl [of v k "GetResourceNotFound r"] by auto

lemma py_getitem_not_NotFoundException: "py_getitem v k \<noteq> Inl (NotFoundException m)"
  using py_getitem_Inl [of v k "NotFoundException m"] by auto

lemma bind_clash_name_upd:
  "''name'' \<notin> set params \<Longrightarrow> bind_clash params (kw(''name'' := x)) = bind_clash params kw"
  by (induction params) (auto simp: bind_clash_def)

subsection \<open>Error translation\<close>

text \<open>
  C1. \<open>_get_network_id\<close> asks \<open>neutron.find_network\<close> for the network and returns
  the \<open>id\<close> entry of the answer. When \<open>find_network\<close> raises an instance of
  \<open>GetResourceFailure\<close> the method raises \<open>NotFoundException\<close> with the message
  \<open>Network <network> not found.\<close>; every other exception of \<open>find_network\<close> comes out
  as it is. So a \<open>NotFoundException\<close> with that message leaves the method only when
  \<open>find_network\<close> raised a \<open>GetResourceFailure\<close> (or that very exception itself).
\<close>

theorem get_network_id_translation:
  assumes "\<not> bind_clash [''self'', ''network''] kw"
  shows "(\<forall>net. respond env (calls s)
               \<lparr>receiver = neutron, method_name = ''find_network'', args = [PStr network],
                kwargs = Map.empty\<rparr> = Inr net
            \<longrightarrow> fst (NeutronScenario_get_network_id env network kw s) = py_getitem net ''id'')
       \<and> (\<forall>e. respond env (calls s)
               \<lparr>receiver = neutron, method_name = ''find_network'', args = [PStr network],
                kwargs = Map.empty\<rparr> = Inl e
            \<longrightarrow> fst (NeutronScenario_get_network_id env network kw s) =
                (if isinstance_GetResourceFailure e
                 then Inl (NotFoundException (''Network '' @ network @ '' not found.''))
                 else Inl e))
       \<and> (fst (NeutronScenario_get_network_id env network kw s) =
             Inl (NotFoundException (''Network '' @ network @ '' not found.''))
            \<longrightarrow> (\<exists>e. respond env (calls s)
                      \<lparr>receiver = neutron, method_name = ''find_network'', args = [PStr network],
                       kwargs = Map.empty\<rparr> = Inl e
                    \<and> (isinstance_GetResourceFailure e
                       \<or> e = NotFoundException (''Network '' @ network @ '' not found.''))))"
  using assms
  by (auto simp: NeutronScenario_get_network_id_def service_call_def Let_def
      py_getitem_not_NotFoundException split: sum.splits if_splits)

theorem get_network_id_translation_witness:
  "\<not> bind_clash [''self'', ''network''] Map.empty
   \<and> fst (NeutronScenario_get_network_id example_env ''private'' Map.empty s0) =
       Inr (PStr ''net-1'')
   \<and> fst (NeutronScenario_get_network_id example_env ''public'' Map.empty s0) =
       Inl (NotFoundException ''Network public not found.'')"
proof -
  have h: "\<not> bind_clash [''self'', ''network''] Map.empty"
    by (simp add: bind_clash_def)
  show ?thesis
    using h get_network_id_translation [OF h, of example_env s0 "''private''"]
      get_network_id_translation [OF h, of example_env s0 "''public''"]
    by (simp add: example_env_def example_respond_def s0_def)
qed

text \<open>
  C2, as stated: an error of \<open>show_loadbalancer\<close> other than a 404 reaches the caller
  unchanged. It does not: a 500 of the service comes out wrapped in
  \<open>GetResourceFailure\<close>.
\<close>

theorem update_loadbalancer_resource_unchanged_counterexample:
  "respond example_env (calls s0)
     \<lparr>receiver = clients_neutron, method_name = ''show_loadbalancer'', args = [PStr ''lb-2''],
      kwargs = Map.empty\<rparr> = Inl (ServiceError (Some 500) ''Internal Server Error'')
   \<and> fst (NeutronScenario_update_loadbalancer_resource example_env
            (PDict (Map.empty(''id'' \<mapsto> PStr ''lb-2''))) s0)
       = Inl (GetResourceFailure (PDict (Map.empty(''id'' \<mapsto> PStr ''lb-2'')))
                (ServiceError (Some 500) ''Internal Server Error''))
   \<and> fst (NeutronScenario_update_loadbalancer_resource example_env
            (PDict (Map.empty(''id'' \<mapsto> PStr ''lb-2''))) s0)
       \<noteq> Inl (ServiceError (Some 500) ''Internal Server Error'')"
  by (simp add: NeutronScenario_update_loadbalancer_resource_def service_call_def
      example_env_def example_respond_def s0_def)

text \<open>
  C2, amended. For a load balancer \<open>lb\<close> that has an \<open>id\<close>:
  \<open>update_loadbalancer_resource\<close> raises \<open>GetResourceNotFound(resource=lb)\<close> exactly
  when \<open>show_loadbalancer\<close> raises an exception whose \<open>status_code\<close> is 404; every
  other exception \<open>e\<close> of \<open>show_loadbalancer\<close> is raised again wrapped as
  \<open>GetResourceFailure(resource=lb, err=e)\<close>; when the call succeeds the method gives
  the \<open>loadbalancer\<close> entry of the response.
\<close>

theorem update_loadbalancer_resource_translation:
  assumes "py_getitem lb ''id'' = Inr lb_id"
  shows "(\<forall>e. respond env (calls s)
              \<lparr>receiver = clients_neutron, method_name = ''show_loadbalancer'', args = [lb_id],
               kwargs = Map.empty\<rparr> = Inl e
           \<longrightarrow> fst (NeutronScenario_update_loadbalancer_resource env lb s) =
               (if getattr_status_code e 400 = 404 then Inl (GetResourceNotFound lb)
                else Inl (GetResourceFailure lb e)))
       \<and> (\<forall>new_lb. respond env (calls s)
              \<lparr>receiver = clients_neutron, method_name = ''show_loadbalancer'', args = [lb_id],
               kwargs = Map.empty\<rparr> = Inr new_lb
           \<longrightarrow> fst (NeutronScenario_update_loadbalancer_resource env lb s) =
               py_getitem new_lb ''loadbalancer'')
       \<and> (fst (NeutronScenario_update_loadbalancer_resource env lb s) = Inl (GetResourceNotFound lb)
           \<longleftrightarrow> (\<exists>e. respond env (calls s)
                     \<lparr>receiver = clients_neutron, method_name = ''show_loadbalancer'', args = [lb_id],
                      kwargs = Map.empty\<rparr> = Inl e
                   \<and> getattr_status_code e 400 = 404))"
  using assms
  by (auto simp: NeutronScenario_update_loadbalancer_resource_def service_call_def Let_def
      py_getitem_not_GetResourceNotFound split: sum.splits)

theorem update_loadbalancer_resource_translation_witness:
  "py_getitem (PDict (Map.empty(''id'' \<mapsto> PStr ''lb-gone''))) ''id'' = Inr (PStr ''lb-gone'')
   \<and> fst (NeutronScenario_update_loadbalancer_resource example_env
            (PDict (Map.empty(''id'' \<mapsto> PStr ''lb-gone''))) s0)
       = Inl (GetResourceNotFound (PDict (Map.empty(''id'' \<mapsto> PStr ''lb-gone''))))
   \<and> py_getitem (PDict (Map.empty(''id'' \<mapsto> PStr ''lb-1''))) ''id'' = Inr (PStr ''lb-1'')
   \<and> fst (NeutronScenario_update_loadbalancer_resource example_env
            (PDict (Map.empty(''id'' \<mapsto> PStr ''lb-1''))) s0)
       = Inr (PDict (Map.empty(''id'' \<mapsto> PStr ''lb-1'',
                               ''provisioning_status'' \<mapsto> PStr ''ACTIVE'')))"
proof -
  have h1: "py_getitem (PDict (Map.empty(''id'' \<mapsto> PStr ''lb-gone''))) ''id'' = Inr (PStr ''lb-gone'')"
    by simp
  have h2: "py_getitem (PDict (Map.empty(''id'' \<mapsto> PStr ''lb-1''))) ''id'' = Inr (PStr ''lb-1'')"
    by simp
  show ?thesis
    using update_loadbalancer_resource_translation [OF h1, of example_env s0]
      update_loadbalancer_resource_translation [OF h2, of example_env s0]
    by (simp add: example_env_def example_respond_def s0_def)
qed

subsection \<open>Shape of the results\<close>

text \<open>
  C3. \<open>_create_network\<close>, \<open>_update_network\<close> and \<open>_show_network\<close> return a value
  exactly when their service call (\<open>create_network\<close>, \<open>update_network\<close>,
  \<open>get_network\<close>) returns one, and the value is then the dict whose single key
  \<open>network\<close> holds what the service returned.
\<close>

theorem network_methods_wrap_result:
  assumes "\<not> bind_clash [''self'', ''network''] kw"
  shows "(fst (NeutronScenario_create_network env a s) = Inr v \<longleftrightarrow>
           (\<exists>r. respond env (calls s)
                  \<lparr>receiver = neutron, method_name = ''create_network'', args = [],
                   kwargs = a(''name'' := None)\<rparr> = Inr r
                \<and> v = PDict (Map.empty(''network'' \<mapsto> r))))
       \<and> (fst (NeutronScenario_update_network env network a s) = Inr v \<longleftrightarrow>
           (\<exists>network_id r. py_getitem2 network ''network'' ''id'' = Inr network_id
                \<and> respond env (calls s)
                  \<lparr>receiver = neutron, method_name = ''update_network'', args = [network_id],
                   kwargs = a(''name'' \<mapsto> PStr (name_gen env (names_used s)))\<rparr> = Inr r
                \<and> v = PDict (Map.empty(''network'' \<mapsto> r))))
       \<and> (fst (NeutronScenario_show_network env network kw s) = Inr v \<longleftrightarrow>
           (\<exists>network_id r. py_getitem2 network ''network'' ''id'' = Inr network_id
                \<and> respond env (calls s)
                  \<lparr>receiver = neutron, method_name = ''get_network'', args = [network_id],
                   kwargs = kw\<rparr> = Inr r
                \<and> v = PDict (Map.empty(''network'' \<mapsto> r))))"
  using assms
  by (auto simp: NeutronScenario_create_network_def NeutronScenario_update_network_def
      NeutronScenario_show_network_def service_call_def generate_random_name_def Let_def
      split: sum.splits)

theorem network_methods_wrap_result_witness:
  "\<not> bind_clash [''self'', ''network''] Map.empty
   \<and> fst (NeutronScenario_create_network example_env
            (Map.empty(''name'' \<mapsto> PStr ''mine'')) s0)
       = Inr (PDict (Map.empty(''network'' \<mapsto> PStr ''res-1'')))
   \<and> fst (NeutronScenario_update_network example_env
            (PDict (Map.empty(''network'' \<mapsto> PDict (Map.empty(''id'' \<mapsto> PStr ''net-1'')))))
            (Map.empty(''name'' \<mapsto> PStr ''mine'')) s0)
       = Inr (PDict (Map.empty(''network'' \<mapsto> PStr ''res-1'')))
   \<and> fst (NeutronScenario_show_network example_env
            (PDict (Map.empty(''network'' \<mapsto> PDict (Map.empty(''id'' \<mapsto> PStr ''net-1'')))))
            Map.empty s0)
       = Inr (PDict (Map.empty(''network'' \<mapsto> PStr ''res-1'')))"
proof -
  have h: "\<not> bind_clash [''self'', ''network''] Map.empty"
    by (simp add: bind_clash_def)
  show ?thesis
    using h network_methods_wrap_result [OF h, of example_env "Map.empty(''name'' \<mapsto> PStr ''mine'')" s0
        "PDict (Map.empty(''network'' \<mapsto> PStr ''res-1''))"
        "PDict (Map.empty(''network'' \<mapsto> PDict (Map.empty(''id'' \<mapsto> PStr ''net-1''))))"]
    by (simp add: example_env_def example_respond_def s0_def py_getitem2_def)
qed

subsection \<open>Generated names and forwarded arguments\<close>

lemma update_subnet_forwards:
  "py_getitem2 subnet ''subnet'' ''id'' = Inr subnet_id \<Longrightarrow>
   snd (snd (NeutronScenario_update_subnet env subnet a s)) =
     \<lparr>calls = calls s @ [\<lparr>receiver = neutron, method_name = ''update_subnet'',
                           args = [subnet_id],
                           kwargs = a(''name'' \<mapsto> PStr (name_gen env (names_used s)))\<rparr>],
      names_used = Suc (names_used s)\<rparr>"
  by (simp add: NeutronScenario_update_subnet_def generate_random_name_def service_call_def
      Let_def split: sum.splits)

lemma update_router_forwards:
  "py_getitem2 router ''router'' ''id'' = Inr router_id \<Longrightarrow>
   snd (snd (NeutronScenario_update_router env router a s)) =
     \<lparr>calls = calls s @ [\<lparr>receiver = neutron, method_name = ''update_router'',
                           args = [router_id],
                           kwargs = a(''name'' \<mapsto> PStr (name_gen env (names_used s)))\<rparr>],
      names_used = Suc (names_used s)\<rparr>"
  by (simp add: NeutronScenario_update_router_def generate_random_name_def service_call_def
      Let_def split: sum.splits)

lemma update_port_forwards:
  "py_getitem2 port ''port'' ''id'' = Inr port_id \<Longrightarrow>
   snd (snd (NeutronScenario_update_port env port a s)) =
     \<lparr>calls = calls s @ [\<lparr>receiver = neutron, method_name = ''update_port'',
                           args = [port_id],
                           kwargs = a(''name'' \<mapsto> PStr (name_gen env (names_used s)))\<rparr>],
      names_used = Suc (names_used s)\<rparr>"
  by (simp add: NeutronScenario_update_port_def generate_random_name_def service_call_def
      Let_def split: sum.splits)

lemma update_security_group_forwards:
  "\<not> bind_clash [''self'', ''security_group''] kw \<Longrightarrow>
   py_getitem2 sg ''security_group'' ''id'' = Inr sg_id \<Longrightarrow>
   snd (NeutronScenario_update_security_group env sg kw s) =
     \<lparr>calls = calls s @ [\<lparr>receiver = neutron, method_name = ''update_security_group'',
                           args = [sg_id],
                           kwargs = kw(''name'' \<mapsto> PStr (name_gen env (names_used s)))\<rparr>],
      names_used = Suc (names_used s)\<rparr>"
  by (simp add: NeutronScenario_update_security_group_def generate_random_name_def
      service_call_def Let_def split: sum.splits)

lemma update_subnet_ignores_name:
  "NeutronScenario_update_subnet env subnet (a(''name'' := x)) s =
   NeutronScenario_update_subnet env subnet a s"
  by (simp add: NeutronScenario_update_subnet_def generate_random_name_def Let_def)

lemma update_router_ignores_name:
  "NeutronScenario_update_router env router (a(''name'' := x)) s =
   NeutronScenario_update_router env router a s"
  by (simp add: NeutronScenario_update_router_def generate_random_name_def Let_def)

lemma update_port_ignores_name:
  "NeutronScenario_update_port env port (a(''name'' := x)) s =
   NeutronScenario_update_port env port a s"
  by (simp add: NeutronScenario_update_port_def generate_random_name_def Let_def)

lemma update_security_group_ignores_name:
  "NeutronScenario_update_security_group env sg (kw(''name'' := x)) s =
   NeutronScenario_update_security_group env sg kw s"
  by (simp add: NeutronScenario_update_security_group_def generate_random_name_def Let_def
      bind_clash_name_upd)

text \<open>
  C4. \<open>_update_subnet\<close>, \<open>_update_router\<close>, \<open>_update_port\<close> and
  \<open>_update_security_group\<close> draw a new name from \<open>generate_random_name\<close> and forward
  the update with \<open>name\<close> set to it, whatever \<open>name\<close> the caller supplied: the one call
  they make carries the generated name, and the outcome of the method is the same for
  every value (or absence) of the caller's \<open>name\<close>.
\<close>

theorem update_methods_force_generated_name:
  assumes "\<not> bind_clash [''self'', ''security_group''] kw"
  shows "(py_getitem2 subnet ''subnet'' ''id'' = Inr subnet_id \<longrightarrow>
            snd (snd (NeutronScenario_update_subnet env subnet a s)) =
              \<lparr>calls = calls s @ [\<lparr>receiver = neutron, method_name = ''update_subnet'',
                  args = [subnet_id],
                  kwargs = a(''name'' \<mapsto> PStr (name_gen env (names_used s)))\<rparr>],
               names_used = Suc (names_used s)\<rparr>)
       \<and> (py_getitem2 router ''router'' ''id'' = Inr router_id \<longrightarrow>
            snd (snd (NeutronScenario_update_router env router a s)) =
              \<lparr>calls = calls s @ [\<lparr>receiver = neutron, method_name = ''update_router'',
                  args = [router_id],
                  kwargs = a(''name'' \<mapsto> PStr (name_gen env (names_used s)))\<rparr>],
               names_used = Suc (names_used s)\<rparr>)
       \<and> (py_getitem2 port ''port'' ''id'' = Inr port_id \<longrightarrow>
            snd (snd (NeutronScenario_update_port env port a s)) =
              \<lparr>calls = calls s @ [\<lparr>receiver = neutron, method_name = ''update_port'',
                  args = [port_id],
                  kwargs = a(''name'' \<mapsto> PStr (name_gen env (names_used s)))\<rparr>],
               names_used = Suc (names_used s)\<rparr>)
       \<and> (py_getitem2 sg ''security_group'' ''id'' = Inr sg_id \<longrightarrow>
            snd (NeutronScenario_update_security_group env sg kw s) =
              \<lparr>calls = calls s @ [\<lparr>receiver = neutron, method_name = ''update_security_group'',
                  args = [sg_id],
                  kwargs = kw(''name'' \<mapsto> PStr (name_gen env (names_used s)))\<rparr>],
               names_used = Suc (names_used s)\<rparr>)
       \<and> NeutronScenario_update_subnet env subnet (a(''name'' := x)) s =
           NeutronScenario_update_subnet env subnet a s
       \<and> NeutronScenario_update_router env router (a(''name'' := x)) s =
           NeutronScenario_update_router env router a s
       \<and> NeutronScenario_update_port env port (a(''name'' := x)) s =
           NeutronScenario_update_port env port a s
       \<and> NeutronScenario_update_security_group env sg (kw(''name'' := x)) s =
           NeutronScenario_update_security_group env sg kw s"
  using assms
  by (simp add: update_subnet_forwards update_router_forwards update_port_forwards
      update_security_group_forwards update_subnet_ignores_name update_router_ignores_name
      update_port_ignores_name update_security_group_ignores_name)

theorem update_methods_force_generated_name_witness:
  "\<not> bind_clash [''self'', ''security_group''] Map.empty
   \<and> py_getitem2 (PDict (Map.empty(''subnet'' \<mapsto> PDict (Map.empty(''id'' \<mapsto> PStr ''sub-1'')))))
        ''subnet'' ''id'' = Inr (PStr ''sub-1'')
   \<and> py_getitem2 (PDict (Map.empty(''router'' \<mapsto> PDict (Map.empty(''id'' \<mapsto> PStr ''rt-1'')))))
        ''router'' ''id'' = Inr (PStr ''rt-1'')
   \<and> py_getitem2 (PDict (Map.empty(''port'' \<mapsto> PDict (Map.empty(''id'' \<mapsto> PStr ''pt-1'')))))
        ''port'' ''id'' = Inr (PStr ''pt-1'')
   \<and> py_getitem2 (PDict (Map.empty(''security_group'' \<mapsto>
          PDict (Map.empty(''id'' \<mapsto> PStr ''sg-1''))))) ''security_group'' ''id'' = Inr (PStr ''sg-1'')
   \<and> map (\<lambda>c. (method_name c, kwargs c ''name''))
        (calls (snd (snd (NeutronScenario_update_subnet example_env
           (PDict (Map.empty(''subnet'' \<mapsto> PDict (Map.empty(''id'' \<mapsto> PStr ''sub-1'')))))
           (Map.empty(''name'' \<mapsto> PStr ''mine'')) s0))))
       = [(''update_subnet'', Some (PStr ''s_rally_''))]
   \<and> map (\<lambda>c. (method_name c, kwargs c ''name''))
        (calls (snd (snd (NeutronScenario_update_router example_env
           (PDict (Map.empty(''router'' \<mapsto> PDict (Map.empty(''id'' \<mapsto> PStr ''rt-1'')))))
           (Map.empty(''name'' \<mapsto> PStr ''mine'')) s0))))
       = [(''update_router'', Some (PStr ''s_rally_''))]
   \<and> map (\<lambda>c. (method_name c, kwargs c ''name''))
        (calls (snd (snd (NeutronScenario_update_port example_env
           (PDict (Map.empty(''port'' \<mapsto> PDict (Map.empty(''id'' \<mapsto> PStr ''pt-1'')))))
           (Map.empty(''name'' \<mapsto> PStr ''mine'')) s0))))
       = [(''update_port'', Some (PStr ''s_rally_''))]
   \<and> map (\<lambda>c. (method_name c, kwargs c ''name''))
        (calls (snd (NeutronScenario_update_security_group example_env
           (PDict (Map.empty(''security_group'' \<mapsto> PDict (Map.empty(''id'' \<mapsto> PStr ''sg-1'')))))
           Map.empty s0)))
       = [(''update_security_group'', Some (PStr ''s_rally_''))]"
proof -
  let ?subnet = "PDict (Map.empty(''subnet'' \<mapsto> PDict (Map.empty(''id'' \<mapsto> PStr ''sub-1''))))"
  let ?router = "PDict (Map.empty(''router'' \<mapsto> PDict (Map.empty(''id'' \<mapsto> PStr ''rt-1''))))"
  let ?port = "PDict (Map.empty(''port'' \<mapsto> PDict (Map.empty(''id'' \<mapsto> PStr ''pt-1''))))"
  let ?sg = "PDict (Map.empty(''security_group'' \<mapsto> PDict (Map.empty(''id'' \<mapsto> PStr ''sg-1''))))"
  have h: "\<not> bind_clash [''self'', ''security_group''] Map.empty"
    by (simp add: bind_clash_def)
  have i: "py_getitem2 ?subnet ''subnet'' ''id'' = Inr (PStr ''sub-1'')"
    "py_getitem2 ?router ''router'' ''id'' = Inr (PStr ''rt-1'')"
    "py_getitem2 ?port ''port'' ''id'' = Inr (PStr ''pt-1'')"
    "py_getitem2 ?sg ''security_group'' ''id'' = Inr (PStr ''sg-1'')"
    by (simp_all add: py_getitem2_def)
  have e: "calls s0 = []" "names_used s0 = 0" "name_gen example_env 0 = ''s_rally_''"
    by (simp_all add: s0_def example_env_def)
  show ?thesis
    using h i update_methods_force_generated_name [OF h,
        where subnet = ?subnet and subnet_id = "PStr ''sub-1''"
        and router = ?router and router_id = "PStr ''rt-1''"
        and port = ?port and port_id = "PStr ''pt-1''"
        and sg = ?sg and sg_id = "PStr ''sg-1''"
        and env = example_env and s = s0
        and a = "Map.empty(''name'' \<mapsto> PStr ''mine'')"]
    by (simp add: e)
qed

text \<open>
  C5. \<open>_create_network\<close> forwards its arguments to \<open>create_network\<close> without any
  \<open>name\<close>. \<open>_create_subnet\<close> forwards to \<open>create_subnet\<close> options without \<open>name\<close>,
  with \<open>network_id\<close> equal to \<open>network["network"]["id"]\<close> and \<open>start_cidr\<close> equal to
  the argument of that name; all other options are the caller's.
\<close>

theorem create_methods_forwarding:
  "(\<exists>c. calls (snd (snd (NeutronScenario_create_network env a s))) = calls s @ [c]
        \<and> receiver c = neutron \<and> method_name c = ''create_network'' \<and> args c = []
        \<and> kwargs c ''name'' = None
        \<and> (\<forall>k. k \<noteq> ''name'' \<longrightarrow> kwargs c k = a k))
   \<and> (py_getitem2 network ''network'' ''id'' = Inr network_id \<longrightarrow>
        (\<exists>c. calls (snd (snd (NeutronScenario_create_subnet env network a start_cidr s))) =
                calls s @ [c]
           \<and> receiver c = neutron \<and> method_name c = ''create_subnet'' \<and> args c = []
           \<and> kwargs c ''name'' = None
           \<and> kwargs c ''network_id'' = Some network_id
           \<and> kwargs c ''start_cidr'' = Some start_cidr
           \<and> (\<forall>k. k \<notin> {''name'', ''network_id'', ''start_cidr''} \<longrightarrow> kwargs c k = a k)))"
  by (simp add: NeutronScenario_create_network_def NeutronScenario_create_subnet_def
      service_call_def Let_def split: sum.splits)

theorem create_methods_forwarding_witness:
  "py_getitem2 (PDict (Map.empty(''network'' \<mapsto> PDict (Map.empty(''id'' \<mapsto> PStr ''net-1'')))))
        ''network'' ''id'' = Inr (PStr ''net-1'')
   \<and> map (\<lambda>c. (method_name c, kwargs c ''name'', kwargs c ''network_id'', kwargs c ''start_cidr'',
                kwargs c ''ip_version''))
        (calls (snd (snd (NeutronScenario_create_subnet example_env
           (PDict (Map.empty(''network'' \<mapsto> PDict (Map.empty(''id'' \<mapsto> PStr ''net-1'')))))
           (Map.empty(''name'' \<mapsto> PStr ''mine'', ''ip_version'' \<mapsto> PInt 4))
           (PStr ''10.2.0.0/24'') s0))))
       = [(''create_subnet'', None, Some (PStr ''net-1''), Some (PStr ''10.2.0.0/24''),
           Some (PInt 4))]"
proof -
  let ?net = "PDict (Map.empty(''network'' \<mapsto> PDict (Map.empty(''id'' \<mapsto> PStr ''net-1''))))"
  let ?a = "Map.empty(''name'' \<mapsto> PStr ''mine'', ''ip_version'' \<mapsto> PInt 4)"
  have i: "py_getitem2 ?net ''network'' ''id'' = Inr (PStr ''net-1'')"
    by (simp add: py_getitem2_def)
  from i create_methods_forwarding [where network = ?net and network_id = "PStr ''net-1''"
      and env = example_env and s = s0 and start_cidr = "PStr ''10.2.0.0/24''" and a = ?a]
  obtain c where c:
    "calls (snd (snd (NeutronScenario_create_subnet example_env ?net ?a (PStr ''10.2.0.0/24'') s0)))
       = calls s0 @ [c]"
    "method_name c = ''create_subnet''"
    "kwargs c ''name'' = None"
    "kwargs c ''network_id'' = Some (PStr ''net-1'')"
    "kwargs c ''start_cidr'' = Some (PStr ''10.2.0.0/24'')"
    "\<forall>k. k \<notin> {''name'', ''network_id'', ''start_cidr''} \<longrightarrow> kwargs c k = ?a k"
    by blast
  have v: "kwargs c ''ip_version'' = Some (PInt 4)"
    using c(6) by simp
  have "calls s0 = []"
    by (simp add: s0_def)
  with i c(1-5) v show ?thesis
    by simp
qed

subsection \<open>Defaults of the load-balancer bodies\<close>

lemma create_lb_pool_body:
  assumes "\<not> bind_clash [''self'', ''subnet_id''] kw"
  shows "snd (NeutronScenario_create_lb_pool env subnet_id kw s) =
           \<lparr>calls = calls s @
              [\<lparr>receiver = clients_neutron, method_name = ''create_pool'',
                args = [PDict (Map.empty(''pool'' \<mapsto> PDict
                  (Map.empty(''lb_method'' \<mapsto> PStr ''ROUND_ROBIN'',
                             ''protocol'' \<mapsto> PStr ''HTTP'',
                             ''name'' \<mapsto> PStr (name_gen env (names_used s)),
                             ''subnet_id'' \<mapsto> subnet_id) ++ kw)))],
                kwargs = Map.empty\<rparr>],
            names_used = Suc (names_used s)\<rparr>"
  using assms
  by (simp add: NeutronScenario_create_lb_pool_def generate_random_name_def service_call_def
      LB_METHOD_def LB_PROTOCOL_def Let_def)

lemma create_v1_healthmonitor_body:
  assumes "\<not> bind_clash [''self''] kw"
  shows "snd (NeutronScenario_create_v1_healthmonitor env kw s) =
           \<lparr>calls = calls s @
              [\<lparr>receiver = clients_neutron, method_name = ''create_health_monitor'',
                args = [PDict (Map.empty(''health_monitor'' \<mapsto> PDict
                  (Map.empty(''type'' \<mapsto> PStr ''PING'',
                             ''delay'' \<mapsto> PInt 20,
                             ''max_retries'' \<mapsto> PInt 3,
                             ''timeout'' \<mapsto> PInt 10) ++ kw)))],
                kwargs = Map.empty\<rparr>],
            names_used = names_used s\<rparr>"
  using assms
  by (simp add: NeutronScenario_create_v1_healthmonitor_def service_call_def
      HM_TYPE_def HM_DELAY_def HM_MAX_RETRIES_def HM_TIMEOUT_def Let_def)

lemma bind_clash_subnet_id:
  "\<not> bind_clash [''self'', ''subnet_id''] kw \<Longrightarrow> kw ''subnet_id'' = None"
  by (simp add: bind_clash_def)

text \<open>
  C6. \<open>_create_lb_pool\<close> sends to \<open>create_pool\<close> the body \<open>{"pool": args}\<close> where
  \<open>args\<close> has \<open>lb_method\<close> \<open>ROUND_ROBIN\<close>, \<open>protocol\<close> \<open>HTTP\<close> and a generated
  \<open>name\<close> unless \<open>pool_create_args\<close> gives them, \<open>subnet_id\<close> the given subnet id, and
  every key of \<open>pool_create_args\<close> with the caller's value. \<open>_create_v1_healthmonitor\<close>
  sends \<open>{"health_monitor": args}\<close> with \<open>type\<close> \<open>PING\<close>, \<open>delay\<close> 20,
  \<open>max_retries\<close> 3 and \<open>timeout\<close> 10 unless the caller gives them, and every key of
  the caller with the caller's value.
\<close>

theorem lb_bodies_defaults_overridden:
  assumes "\<not> bind_clash [''self'', ''subnet_id''] pool_create_args"
    and "\<not> bind_clash [''self''] healthmonitor_create_args"
  shows "(\<exists>body. calls (snd (NeutronScenario_create_lb_pool env subnet_id pool_create_args s)) =
              calls s @ [\<lparr>receiver = clients_neutron, method_name = ''create_pool'',
                args = [PDict (Map.empty(''pool'' \<mapsto> PDict body))], kwargs = Map.empty\<rparr>]
            \<and> body ''lb_method'' =
                (case pool_create_args ''lb_method'' of
                   None \<Rightarrow> Some (PStr ''ROUND_ROBIN'') | Some v \<Rightarrow> Some v)
            \<and> body ''protocol'' =
                (case pool_create_args ''protocol'' of
                   None \<Rightarrow> Some (PStr ''HTTP'') | Some v \<Rightarrow> Some v)
            \<and> body ''name'' =
                (case pool_create_args ''name'' of
                   None \<Rightarrow> Some (PStr (name_gen env (names_used s))) | Some v \<Rightarrow> Some v)
            \<and> body ''subnet_id'' = Some subnet_id
            \<and> (\<forall>k v. pool_create_args k = Some v \<longrightarrow> body k = Some v)
            \<and> (\<forall>k. k \<notin> {''lb_method'', ''protocol'', ''name'', ''subnet_id''}
                     \<longrightarrow> body k = pool_create_args k))
       \<and> (\<exists>body. calls (snd (NeutronScenario_create_v1_healthmonitor env
                                 healthmonitor_create_args s)) =
              calls s @ [\<lparr>receiver = clients_neutron, method_name = ''create_health_monitor'',
                args = [PDict (Map.empty(''health_monitor'' \<mapsto> PDict body))],
                kwargs = Map.empty\<rparr>]
            \<and> body ''type'' =
                (case healthmonitor_create_args ''type'' of
                   None \<Rightarrow> Some (PStr ''PING'') | Some v \<Rightarrow> Some v)
            \<and> body ''delay'' =
                (case healthmonitor_create_args ''delay'' of
                   None \<Rightarrow> Some (PInt 20) | Some v \<Rightarrow> Some v)
            \<and> body ''max_retries'' =
                (case healthmonitor_create_args ''max_retries'' of
                   None \<Rightarrow> Some (PInt 3) | Some v \<Rightarrow> Some v)
            \<and> body ''timeout'' =
                (case healthmonitor_create_args ''timeout'' of
                   None \<Rightarrow> Some (PInt 10) | Some v \<Rightarrow> Some v)
            \<and> (\<forall>k v. healthmonitor_create_args k = Some v \<longrightarrow> body k = Some v)
            \<and> (\<forall>k. k \<notin> {''type'', ''delay'', ''max_retries'', ''timeout''}
                     \<longrightarrow> body k = healthmonitor_create_args k))"
proof (intro conjI)
  let ?b = "Map.empty(''lb_method'' \<mapsto> PStr ''ROUND_ROBIN'', ''protocol'' \<mapsto> PStr ''HTTP'',
              ''name'' \<mapsto> PStr (name_gen env (names_used s)),
              ''subnet_id'' \<mapsto> subnet_id) ++ pool_create_args"
  have n: "pool_create_args ''subnet_id'' = None"
    using assms(1) by (rule bind_clash_subnet_id)
  show "\<exists>body. calls (snd (NeutronScenario_create_lb_pool env subnet_id pool_create_args s)) =
              calls s @ [\<lparr>receiver = clients_neutron, method_name = ''create_pool'',
                args = [PDict (Map.empty(''pool'' \<mapsto> PDict body))], kwargs = Map.empty\<rparr>]
            \<and> body ''lb_method'' =
                (case pool_create_args ''lb_method'' of
                   None \<Rightarrow> Some (PStr ''ROUND_ROBIN'') | Some v \<Rightarrow> Some v)
            \<and> body ''protocol'' =
                (case pool_create_args ''protocol'' of
                   None \<Rightarrow> Some (PStr ''HTTP'') | Some v \<Rightarrow> Some v)
            \<and> body ''name'' =
                (case pool_create_args ''name'' of
                   None \<Rightarrow> Some (PStr (name_gen env (names_used s))) | Some v \<Rightarrow> Some v)
            \<and> body ''subnet_id'' = Some subnet_id
            \<and> (\<forall>k v. pool_create_args k = Some v \<longrightarrow> body k = Some v)
            \<and> (\<forall>k. k \<notin> {''lb_method'', ''protocol'', ''name'', ''subnet_id''}
                     \<longrightarrow> body k = pool_create_args k)"
    apply (rule exI [where x = ?b])
    apply (simp only: create_lb_pool_body [OF assms(1)])
    apply (simp add: map_add_def n split: option.splits)
    done
next
  let ?b = "Map.empty(''type'' \<mapsto> PStr ''PING'', ''delay'' \<mapsto> PInt 20,
              ''max_retries'' \<mapsto> PInt 3, ''timeout'' \<mapsto> PInt 10) ++ healthmonitor_create_args"
  show "\<exists>body. calls (snd (NeutronScenario_create_v1_healthmonitor env
                                 healthmonitor_create_args s)) =
              calls s @ [\<lparr>receiver = clients_neutron, method_name = ''create_health_monitor'',
                args = [PDict (Map.empty(''health_monitor'' \<mapsto> PDict body))],
                kwargs = Map.empty\<rparr>]
            \<and> body ''type'' =
                (case healthmonitor_create_args ''type'' of
                   None \<Rightarrow> Some (PStr ''PING'') | Some v \<Rightarrow> Some v)
            \<and> body ''delay'' =
                (case healthmonitor_create_args ''delay'' of
                   None \<Rightarrow> Some (PInt 20) | Some v \<Rightarrow> Some v)
            \<and> body ''max_retries'' =
                (case healthmonitor_create_args ''max_retries'' of
                   None \<Rightarrow> Some (PInt 3) | Some v \<Rightarrow> Some v)
            \<and> body ''timeout'' =
                (case healthmonitor_create_args ''timeout'' of
                   None \<Rightarrow> Some (PInt 10) | Some v \<Rightarrow> Some v)
            \<and> (\<forall>k v. healthmonitor_create_args k = Some v \<longrightarrow> body k = Some v)
            \<and> (\<forall>k. k \<notin> {''type'', ''delay'', ''max_retries'', ''timeout''}
                     \<longrightarrow> body k = healthmonitor_create_args k)"
    apply (rule exI [where x = ?b])
    apply (simp only: create_v1_healthmonitor_body [OF assms(2)])
    apply (simp add: map_add_def split: option.splits)
    done
qed

theorem lb_bodies_defaults_overridden_witness:
  "\<not> bind_clash [''self'', ''subnet_id''] (Map.empty(''protocol'' \<mapsto> PStr ''TCP''))
   \<and> \<not> bind_clash [''self''] (Map.empty(''delay'' \<mapsto> PInt 5))
   \<and> (\<exists>body. calls (snd (NeutronScenario_create_lb_pool example_env (PStr ''sub-1'')
                               (Map.empty(''protocol'' \<mapsto> PStr ''TCP'')) s0)) =
              [\<lparr>receiver = clients_neutron, method_name = ''create_pool'',
                args = [PDict (Map.empty(''pool'' \<mapsto> PDict body))], kwargs = Map.empty\<rparr>]
            \<and> body ''lb_method'' = Some (PStr ''ROUND_ROBIN'')
            \<and> body ''protocol'' = Some (PStr ''TCP'')
            \<and> body ''name'' = Some (PStr ''s_rally_'')
            \<and> body ''subnet_id'' = Some (PStr ''sub-1''))
   \<and> (\<exists>body. calls (snd (NeutronScenario_create_v1_healthmonitor example_env
                               (Map.empty(''delay'' \<mapsto> PInt 5)) s0)) =
              [\<lparr>receiver = clients_neutron, method_name = ''create_health_monitor'',
                args = [PDict (Map.empty(''health_monitor'' \<mapsto> PDict body))],
                kwargs = Map.empty\<rparr>]
            \<and> body ''type'' = Some (PStr ''PING'')
            \<and> body ''delay'' = Some (PInt 5)
            \<and> body ''max_retries'' = Some (PInt 3)
            \<and> body ''timeout'' = Some (PInt 10))"
proof -
  have h1: "\<not> bind_clash [''self'', ''subnet_id''] (Map.empty(''protocol'' \<mapsto> PStr ''TCP''))"
    by (simp add: bind_clash_def)
  have h2: "\<not> bind_clash [''self''] (Map.empty(''delay'' \<mapsto> PInt 5))"
    by (simp add: bind_clash_def)
  have e: "calls s0 = []" "names_used s0 = 0" "name_gen example_env 0 = ''s_rally_''"
    by (simp_all add: s0_def example_env_def)
  show ?thesis
    using h1 h2 lb_bodies_defaults_overridden [OF h1 h2, of example_env "PStr ''sub-1''" s0]
    apply (simp add: e)
    apply (elim conjE exE)
    apply (intro conjI exI; assumption)
    done
qed

subsection \<open>Networks of the tenant context\<close>

text \<open>
  C8. When the tenant context has a \<open>networks\<close> entry,
  \<open>NeutronBaseScenario._get_or_create_network\<close> returns the element at index
  \<open>iteration mod len(networks)\<close> (an index inside the list) and calls no service: the
  state, and so the list of calls, is unchanged. For an empty list the remainder is a
  division by zero: the method raises \<open>ZeroDivisionError\<close>, again without any call.
\<close>

theorem get_or_create_network_from_context:
  assumes "\<not> bind_clash [''self''] network_create_args"
    and "networks (tenant (self_context env)) = Some nets"
  shows "(nets \<noteq> [] \<longrightarrow>
            NeutronBaseScenario_get_or_create_network env network_create_args s =
              (Inr (nets ! nat (iteration (self_context env) mod int (length nets))), s)
          \<and> nat (iteration (self_context env) mod int (length nets)) < length nets)
       \<and> (nets = [] \<longrightarrow>
            NeutronBaseScenario_get_or_create_network env network_create_args s =
              (Inl ZeroDivisionError, s))"
proof (intro conjI impI)
  assume ne: "nets \<noteq> []"
  then have pos: "0 < int (length nets)"
    by simp
  show "NeutronBaseScenario_get_or_create_network env network_create_args s =
          (Inr (nets ! nat (iteration (self_context env) mod int (length nets))), s)"
    using assms ne by (simp add: NeutronBaseScenario_get_or_create_network_def Let_def)
  have "iteration (self_context env) mod int (length nets) < int (length nets)"
    using pos by (rule pos_mod_bound)
  moreover have "0 \<le> iteration (self_context env) mod int (length nets)"
    using pos by (rule pos_mod_sign)
  ultimately show "nat (iteration (self_context env) mod int (length nets)) < length nets"
    by linarith
next
  assume "nets = []"
  then show "NeutronBaseScenario_get_or_create_network env network_create_args s =
               (Inl ZeroDivisionError, s)"
    using assms by (simp add: NeutronBaseScenario_get_or_create_network_def)
qed

theorem get_or_create_network_from_context_witness:
  "\<not> bind_clash [''self''] Map.empty
   \<and> networks (tenant (self_context example_env)) =
       Some [PStr ''net-a'', PStr ''net-b'', PStr ''net-c'']
   \<and> NeutronBaseScenario_get_or_create_network example_env Map.empty s0 =
       (Inr (PStr ''net-b''), s0)
   \<and> networks (tenant (self_context
         (example_env\<lparr>self_context := \<lparr>tenant = \<lparr>networks = Some []\<rparr>, iteration = 7\<rparr>\<rparr>))) = Some []
   \<and> NeutronBaseScenario_get_or_create_network
         (example_env\<lparr>self_context := \<lparr>tenant = \<lparr>networks = Some []\<rparr>, iteration = 7\<rparr>\<rparr>)
         Map.empty s0 = (Inl ZeroDivisionError, s0)"
proof -
  let ?env0 = "example_env\<lparr>self_context := \<lparr>tenant = \<lparr>networks = Some []\<rparr>, iteration = 7\<rparr>\<rparr>"
  have h: "\<not> bind_clash [''self''] Map.empty"
    by (simp add: bind_clash_def)
  have n1: "networks (tenant (self_context example_env)) =
              Some [PStr ''net-a'', PStr ''net-b'', PStr ''net-c'']"
    by (simp add: example_env_def)
  have n0: "networks (tenant (self_context ?env0)) = Some []"
    by simp
  have it: "iteration (self_context example_env) = 7"
    by (simp add: example_env_def)
  show ?thesis
    using h n1 n0 get_or_create_network_from_context [OF h n1, of s0]
      get_or_create_network_from_context [OF h n0, of s0]
    by (simp add: it)
qed

subsection \<open>Dicts changed in place\<close>

lemma create_subnet_dict:
  "py_getitem2 network ''network'' ''id'' = Inr network_id \<Longrightarrow>
   fst (snd (NeutronScenario_create_subnet env network a start_cidr s)) =
     (a(''name'' := None))(''network_id'' \<mapsto> network_id, ''start_cidr'' \<mapsto> start_cidr)"
  by (simp add: NeutronScenario_create_subnet_def service_call_def Let_def split: sum.splits)

lemma update_network_dict:
  "fst (snd (NeutronScenario_update_network env network a s)) =
     a(''name'' \<mapsto> PStr (name_gen env (names_used s)))"
  by (simp add: NeutronScenario_update_network_def generate_random_name_def service_call_def
      Let_def split: sum.splits)

lemma create_router_dict:
  "fst (snd (NeutronScenario_create_router env a external_gw s)) =
     (if a ''tenant_id'' \<noteq> None \<and> a ''project_id'' = None
      then (a(''name'' := None, ''tenant_id'' := None))(''project_id'' := a ''tenant_id'')
      else a(''name'' := None))"
proof (cases "a ''tenant_id'' \<noteq> None \<and> a ''project_id'' = None")
  case True
  then show ?thesis
    by (auto simp: NeutronScenario_create_router_def service_call_def Let_def
        split: sum.splits)
next
  case False
  then show ?thesis
    by (auto simp: NeutronScenario_create_router_def service_call_def Let_def
        split: sum.splits)
qed

lemma subnet_dict_differs:
  "((a(''name'' := None))(''network_id'' \<mapsto> network_id, ''start_cidr'' \<mapsto> start_cidr) \<noteq> a)
   = (a ''name'' \<noteq> None \<or> a ''network_id'' \<noteq> Some network_id
      \<or> a ''start_cidr'' \<noteq> Some start_cidr)"
proof
  assume d: "(a(''name'' := None))(''network_id'' \<mapsto> network_id, ''start_cidr'' \<mapsto> start_cidr) \<noteq> a"
  show "a ''name'' \<noteq> None \<or> a ''network_id'' \<noteq> Some network_id
        \<or> a ''start_cidr'' \<noteq> Some start_cidr"
  proof (rule ccontr)
    assume "\<not> ?thesis"
    then have "(a(''name'' := None))(''network_id'' \<mapsto> network_id, ''start_cidr'' \<mapsto> start_cidr) = a"
      by (intro ext) simp
    with d show False by simp
  qed
next
  assume "a ''name'' \<noteq> None \<or> a ''network_id'' \<noteq> Some network_id
          \<or> a ''start_cidr'' \<noteq> Some start_cidr"
  then have h: "\<not> (a ''name'' = None \<and> a ''network_id'' = Some network_id
          \<and> a ''start_cidr'' = Some start_cidr)"
    by blast
  show "(a(''name'' := None))(''network_id'' \<mapsto> network_id, ''start_cidr'' \<mapsto> start_cidr) \<noteq> a"
  proof
    assume e: "(a(''name'' := None))(''network_id'' \<mapsto> network_id, ''start_cidr'' \<mapsto> start_cidr) = a"
    from arg_cong [OF e, of "\<lambda>m. m ''name''"] have 1: "a ''name'' = None"
      by simp
    from arg_cong [OF e, of "\<lambda>m. m ''network_id''"] have 2: "a ''network_id'' = Some network_id"
      by simp
    from arg_cong [OF e, of "\<lambda>m. m ''start_cidr''"] have 3: "a ''start_cidr'' = Some start_cidr"
      by simp
    from h 1 2 3 show False by blast
  qed
qed

lemma name_dict_differs:
  "(a(''name'' \<mapsto> v) \<noteq> a) = (a ''name'' \<noteq> Some v)"
proof
  assume d: "a(''name'' \<mapsto> v) \<noteq> a"
  show "a ''name'' \<noteq> Some v"
  proof
    assume "a ''name'' = Some v"
    then have "a(''name'' \<mapsto> v) = a"
      by (intro ext) simp
    with d show False by simp
  qed
next
  assume "a ''name'' \<noteq> Some v"
  then show "a(''name'' \<mapsto> v) \<noteq> a"
    by (auto dest!: fun_cong [where x = "''name''"])
qed

lemma router_dict_differs:
  "((if a ''tenant_id'' \<noteq> None \<and> a ''project_id'' = None
     then (a(''name'' := None, ''tenant_id'' := None))(''project_id'' := a ''tenant_id'')
     else a(''name'' := None)) \<noteq> a)
   = (a ''name'' \<noteq> None \<or> (a ''tenant_id'' \<noteq> None \<and> a ''project_id'' = None))"
proof (cases "a ''tenant_id'' \<noteq> None \<and> a ''project_id'' = None")
  case True
  then have "(a(''name'' := None, ''tenant_id'' := None))(''project_id'' := a ''tenant_id'') \<noteq> a"
    by (auto dest!: fun_cong [where x = "''tenant_id''"])
  with True show ?thesis by simp
next
  case False
  have "(a(''name'' := None) \<noteq> a) = (a ''name'' \<noteq> None)"
  proof
    assume d: "a(''name'' := None) \<noteq> a"
    show "a ''name'' \<noteq> None"
    proof
      assume "a ''name'' = None"
      then have "a(''name'' := None) = a"
        by (intro ext) simp
      with d show False by simp
    qed
  next
    assume "a ''name'' \<noteq> None"
    then show "a(''name'' := None) \<noteq> a"
      by (auto dest!: fun_cong [where x = "''name''"])
  qed
  with False show ?thesis by auto
qed

text \<open>
  C9, as stated: after the call the dict the caller holds differs from the one passed in.
  It does not when there is nothing to change: \<open>_create_router\<close> called with
  \<open>{"admin_state_up": True}\<close> leaves the caller with that same dict.
\<close>

theorem caller_dict_differs_counterexample:
  "fst (snd (NeutronScenario_create_router example_env
              (Map.empty(''admin_state_up'' \<mapsto> PBool True)) False s0)) =
     Map.empty(''admin_state_up'' \<mapsto> PBool True)"
  by (simp add: create_router_dict)

text \<open>
  C9, amended. Three methods change the dict their caller passed. After
  \<open>_create_subnet\<close> (for a network with an id) the caller's \<open>subnet_create_args\<close> has
  no \<open>name\<close> and holds \<open>network_id\<close> and \<open>start_cidr\<close>; after \<open>_update_network\<close>
  the caller's \<open>network_update_args\<close> holds the generated \<open>name\<close>; after
  \<open>_create_router\<close> the caller's \<open>router_create_args\<close> has no \<open>name\<close> and, when it
  had \<open>tenant_id\<close> without \<open>project_id\<close>, has \<open>project_id\<close> with that value in
  place of \<open>tenant_id\<close>. The dict the caller holds afterwards differs from the one passed
  in exactly when one of these changes has something to change.
\<close>

theorem caller_dicts_mutated_in_place:
  "(py_getitem2 network ''network'' ''id'' = Inr network_id \<longrightarrow>
      fst (snd (NeutronScenario_create_subnet env network a start_cidr s)) =
        (a(''name'' := None))(''network_id'' \<mapsto> network_id, ''start_cidr'' \<mapsto> start_cidr)
      \<and> (fst (snd (NeutronScenario_create_subnet env network a start_cidr s)) \<noteq> a
          \<longleftrightarrow> a ''name'' \<noteq> None \<or> a ''network_id'' \<noteq> Some network_id
              \<or> a ''start_cidr'' \<noteq> Some start_cidr))
   \<and> fst (snd (NeutronScenario_update_network env network a s)) =
        a(''name'' \<mapsto> PStr (name_gen env (names_used s)))
   \<and> (fst (snd (NeutronScenario_update_network env network a s)) \<noteq> a
        \<longleftrightarrow> a ''name'' \<noteq> Some (PStr (name_gen env (names_used s))))
   \<and> fst (snd (NeutronScenario_create_router env a external_gw s)) =
        (if a ''tenant_id'' \<noteq> None \<and> a ''project_id'' = None
         then (a(''name'' := None, ''tenant_id'' := None))(''project_id'' := a ''tenant_id'')
         else a(''name'' := None))
   \<and> (fst (snd (NeutronScenario_create_router env a external_gw s)) \<noteq> a
        \<longleftrightarrow> a ''name'' \<noteq> None \<or> (a ''tenant_id'' \<noteq> None \<and> a ''project_id'' = None))"
proof (intro conjI impI)
  assume i: "py_getitem2 network ''network'' ''id'' = Inr network_id"
  show "fst (snd (NeutronScenario_create_subnet env network a start_cidr s)) =
        (a(''name'' := None))(''network_id'' \<mapsto> network_id, ''start_cidr'' \<mapsto> start_cidr)"
    using i by (rule create_subnet_dict)
  show "fst (snd (NeutronScenario_create_subnet env network a start_cidr s)) \<noteq> a
          \<longleftrightarrow> a ''name'' \<noteq> None \<or> a ''network_id'' \<noteq> Some network_id
              \<or> a ''start_cidr'' \<noteq> Some start_cidr"
    by (simp only: create_subnet_dict [OF i] subnet_dict_differs)
next
  show "fst (snd (NeutronScenario_update_network env network a s)) =
        a(''name'' \<mapsto> PStr (name_gen env (names_used s)))"
    by (rule update_network_dict)
  show "fst (snd (NeutronScenario_update_network env network a s)) \<noteq> a
        \<longleftrightarrow> a ''name'' \<noteq> Some (PStr (name_gen env (names_used s)))"
    by (simp only: update_network_dict name_dict_differs)
  show "fst (snd (NeutronScenario_create_router env a external_gw s)) =
        (if a ''tenant_id'' \<noteq> None \<and> a ''project_id'' = None
         then (a(''name'' := None, ''tenant_id'' := None))(''project_id'' := a ''tenant_id'')
         else a(''name'' := None))"
    by (rule create_router_dict)
  show "fst (snd (NeutronScenario_create_router env a external_gw s)) \<noteq> a
        \<longleftrightarrow> a ''name'' \<noteq> None \<or> (a ''tenant_id'' \<noteq> None \<and> a ''project_id'' = None)"
    by (simp only: create_router_dict router_dict_differs)
qed

theorem caller_dicts_mutated_in_place_witness:
  "py_getitem2 (PDict (Map.empty(''network'' \<mapsto> PDict (Map.empty(''id'' \<mapsto> PStr ''net-1'')))))
        ''network'' ''id'' = Inr (PStr ''net-1'')
   \<and> fst (snd (NeutronScenario_create_subnet example_env
        (PDict (Map.empty(''network'' \<mapsto> PDict (Map.empty(''id'' \<mapsto> PStr ''net-1'')))))
        (Map.empty(''name'' \<mapsto> PStr ''mine'', ''tenant_id'' \<mapsto> PStr ''t-1''))
        (PStr ''10.2.0.0/24'') s0)) \<noteq>
       Map.empty(''name'' \<mapsto> PStr ''mine'', ''tenant_id'' \<mapsto> PStr ''t-1'')
   \<and> fst (snd (NeutronScenario_create_router example_env
        (Map.empty(''name'' \<mapsto> PStr ''mine'', ''tenant_id'' \<mapsto> PStr ''t-1'')) False s0)) =
       Map.empty(''project_id'' \<mapsto> PStr ''t-1'')"
proof -
  let ?net = "PDict (Map.empty(''network'' \<mapsto> PDict (Map.empty(''id'' \<mapsto> PStr ''net-1''))))"
  let ?a = "Map.empty(''name'' \<mapsto> PStr ''mine'', ''tenant_id'' \<mapsto> PStr ''t-1'')"
  have i: "py_getitem2 ?net ''network'' ''id'' = Inr (PStr ''net-1'')"
    by (simp add: py_getitem2_def)
  have r: "(?a(''name'' := None, ''tenant_id'' := None))(''project_id'' := ?a ''tenant_id'')
             = Map.empty(''project_id'' \<mapsto> PStr ''t-1'')"
    by (intro ext) simp
  note t = caller_dicts_mutated_in_place [where network = ?net and network_id = "PStr ''net-1''"
      and env = example_env and s = s0 and start_cidr = "PStr ''10.2.0.0/24''" and a = ?a
      and external_gw = False]
  have d: "fst (snd (NeutronScenario_create_subnet example_env ?net ?a (PStr ''10.2.0.0/24'') s0))
             \<noteq> ?a"
    using t [THEN conjunct1, THEN mp, OF i, THEN conjunct2] by simp
  have e: "fst (snd (NeutronScenario_create_router example_env ?a False s0)) =
             Map.empty(''project_id'' \<mapsto> PStr ''t-1'')"
    using t [THEN conjunct2, THEN conjunct2, THEN conjunct2, THEN conjunct1] r by simp
  from i d e show ?thesis
    by (intro conjI)
qed

subsection \<open>BGP VPN update\<close>

lemma update_bgpvpn_state:
  assumes "\<not> bind_clash [''self'', ''bgpvpn'', ''update_name''] kw"
    and "py_getitem2 bgpvpn ''bgpvpn'' ''id'' = Inr bgpvpn_id"
  shows "calls (snd (NeutronScenario_update_bgpvpn env bgpvpn update_name kw s)) =
           calls s @ [\<lparr>receiver = admin_clients_neutron, method_name = ''update_bgpvpn'',
             args = [bgpvpn_id, PDict (Map.empty(''bgpvpn'' \<mapsto> PDict
               (if update_name \<or> kw ''name'' \<noteq> None
                then kw(''name'' \<mapsto> PStr (name_gen env (names_used s))) else kw)))],
             kwargs = Map.empty\<rparr>]"
  using assms
  by (simp add: NeutronScenario_update_bgpvpn_def generate_random_name_def service_call_def
      Let_def)

lemma update_bgpvpn_ignores_name:
  "NeutronScenario_update_bgpvpn env bgpvpn update_name (kw(''name'' \<mapsto> v)) s =
   NeutronScenario_update_bgpvpn env bgpvpn update_name (kw(''name'' \<mapsto> w)) s"
  by (simp add: NeutronScenario_update_bgpvpn_def generate_random_name_def Let_def
      bind_clash_name_upd)

text \<open>
  C10. \<open>_update_bgpvpn\<close> sends to \<open>update_bgpvpn\<close> the body \<open>{"bgpvpn": kwargs}\<close>
  in which \<open>name\<close> is a generated name when \<open>update_name\<close> is true or the caller gave
  a \<open>name\<close>, and is absent otherwise; the other keys are the caller's. Which name the
  caller gave makes no difference to the outcome.
\<close>

theorem update_bgpvpn_name_absent_or_generated:
  assumes "\<not> bind_clash [''self'', ''bgpvpn'', ''update_name''] kw"
    and "py_getitem2 bgpvpn ''bgpvpn'' ''id'' = Inr bgpvpn_id"
  shows "(\<exists>body. calls (snd (NeutronScenario_update_bgpvpn env bgpvpn update_name kw s)) =
             calls s @ [\<lparr>receiver = admin_clients_neutron, method_name = ''update_bgpvpn'',
               args = [bgpvpn_id, PDict (Map.empty(''bgpvpn'' \<mapsto> PDict body))],
               kwargs = Map.empty\<rparr>]
           \<and> body ''name'' =
               (if update_name \<or> kw ''name'' \<noteq> None
                then Some (PStr (name_gen env (names_used s))) else None)
           \<and> (\<forall>k. k \<noteq> ''name'' \<longrightarrow> body k = kw k))
       \<and> NeutronScenario_update_bgpvpn env bgpvpn update_name (kw(''name'' \<mapsto> v)) s =
           NeutronScenario_update_bgpvpn env bgpvpn update_name (kw(''name'' \<mapsto> w)) s"
proof (intro conjI)
  let ?b = "if update_name \<or> kw ''name'' \<noteq> None
            then kw(''name'' \<mapsto> PStr (name_gen env (names_used s))) else kw"
  show "\<exists>body. calls (snd (NeutronScenario_update_bgpvpn env bgpvpn update_name kw s)) =
             calls s @ [\<lparr>receiver = admin_clients_neutron, method_name = ''update_bgpvpn'',
               args = [bgpvpn_id, PDict (Map.empty(''bgpvpn'' \<mapsto> PDict body))],
               kwargs = Map.empty\<rparr>]
           \<and> body ''name'' =
               (if update_name \<or> kw ''name'' \<noteq> None
                then Some (PStr (name_gen env (names_used s))) else None)
           \<and> (\<forall>k. k \<noteq> ''name'' \<longrightarrow> body k = kw k)"
    apply (rule exI [where x = ?b])
    apply (simp only: update_bgpvpn_state [OF assms])
    apply auto
    done
  show "NeutronScenario_update_bgpvpn env bgpvpn update_name (kw(''name'' \<mapsto> v)) s =
        NeutronScenario_update_bgpvpn env bgpvpn update_name (kw(''name'' \<mapsto> w)) s"
    by (rule update_bgpvpn_ignores_name)
qed

theorem update_bgpvpn_name_absent_or_generated_witness:
  "\<not> bind_clash [''self'', ''bgpvpn'', ''update_name'']
        (Map.empty(''name'' \<mapsto> PStr ''mine'', ''type'' \<mapsto> PStr ''l3''))
   \<and> py_getitem2 (PDict (Map.empty(''bgpvpn'' \<mapsto> PDict (Map.empty(''id'' \<mapsto> PStr ''vpn-1'')))))
        ''bgpvpn'' ''id'' = Inr (PStr ''vpn-1'')
   \<and> (\<exists>body. calls (snd (NeutronScenario_update_bgpvpn example_env
             (PDict (Map.empty(''bgpvpn'' \<mapsto> PDict (Map.empty(''id'' \<mapsto> PStr ''vpn-1'')))))
             False (Map.empty(''name'' \<mapsto> PStr ''mine'', ''type'' \<mapsto> PStr ''l3'')) s0)) =
             [\<lparr>receiver = admin_clients_neutron, method_name = ''update_bgpvpn'',
               args = [PStr ''vpn-1'', PDict (Map.empty(''bgpvpn'' \<mapsto> PDict body))],
               kwargs = Map.empty\<rparr>]
           \<and> body ''name'' = Some (PStr ''s_rally_''))"
proof -
  let ?vpn = "PDict (Map.empty(''bgpvpn'' \<mapsto> PDict (Map.empty(''id'' \<mapsto> PStr ''vpn-1''))))"
  let ?kw = "Map.empty(''name'' \<mapsto> PStr ''mine'', ''type'' \<mapsto> PStr ''l3'')"
  have h: "\<not> bind_clash [''self'', ''bgpvpn'', ''update_name''] ?kw"
    by (simp add: bind_clash_def)
  have i: "py_getitem2 ?vpn ''bgpvpn'' ''id'' = Inr (PStr ''vpn-1'')"
    by (simp add: py_getitem2_def)
  have e: "calls s0 = []" "names_used s0 = 0" "name_gen example_env 0 = ''s_rally_''"
    by (simp_all add: s0_def example_env_def)
  show ?thesis
    using h i update_bgpvpn_name_absent_or_generated [OF h i, of example_env False s0,
        THEN conjunct1]
    apply (simp add: e)
    apply (elim conjE exE)
    apply (intro conjI exI; assumption)
    done
qed

subsection \<open>Creating a load balancer (v2) and waiting for it\<close>

















end
